theory Spec2Isabelle
  imports Main "HOL-Library.AList"
begin

section \<open>JavaScript values\<close>

text \<open>
  The values that flow through \<^verbatim>\<open>src/lib/route-handlers.js\<close>: request parameters,
  loaded resources, transaction handles, rejection reasons. A plain object is an
  association list of its own enumerable properties in insertion order; a loaded
  data-model instance is the object of its attributes. Numbers are the integers
  (row counts and status codes are the only numbers the handlers look at).
\<close>

datatype jsval =
    JUndefined
  | JNull
  | JBool bool
  | JNum int
  | JStr string
  | JArr "jsval list"
  | JObj "(string \<times> jsval) list"

text \<open>What a \<^verbatim>\<open>throw\<close> carries: \<^verbatim>\<open>new Error(message)\<close>, or the engine's TypeError.\<close>

datatype js_exn = Error string | TypeError

text \<open>
  \<^verbatim>\<open>params.id\<close>: reading a property of \<^verbatim>\<open>undefined\<close> or \<^verbatim>\<open>null\<close> throws a
  TypeError; an object yields the property or \<^verbatim>\<open>undefined\<close>; the other values have no
  property \<^verbatim>\<open>id\<close>.
\<close>

fun get_id :: "jsval \<Rightarrow> js_exn + jsval" where
  "get_id JUndefined = Inl TypeError"
| "get_id JNull = Inl TypeError"
| "get_id (JObj kvs) = Inr (case map_of kvs ''id'' of Some v \<Rightarrow> v | None \<Rightarrow> JUndefined)"
| "get_id v = Inr JUndefined"

text \<open>The condition of \<^verbatim>\<open>count ? a : b\<close>.\<close>

fun truthy :: "jsval \<Rightarrow> bool" where
  "truthy JUndefined = False"
| "truthy JNull = False"
| "truthy (JBool b) = b"
| "truthy (JNum n) = (n \<noteq> 0)"
| "truthy (JStr s) = (s \<noteq> [])"
| "truthy (JArr xs) = True"
| "truthy (JObj kvs) = True"

text \<open>The decimal name of an array index, as a property key.\<close>

fun dec :: "nat \<Rightarrow> string" where
  "dec n = (if n < 10 then [''0123456789'' ! n]
            else dec (n div 10) @ [''0123456789'' ! (n mod 10)])"

declare dec.simps [simp del]

text \<open>
  The own enumerable properties copied by \<^verbatim>\<open>{ ...v }\<close>: those of an object, the indexed
  elements of an array or of a string, and none for the other values.
\<close>

fun spread :: "jsval \<Rightarrow> (string \<times> jsval) list" where
  "spread (JObj kvs) = kvs"
| "spread (JArr xs) = zip (map dec [0..<length xs]) xs"
| "spread (JStr s) = zip (map dec [0..<length s]) (map (\<lambda>c. JStr [c]) s)"
| "spread v = []"

section \<open>The injected collaborators\<close>

text \<open>
  A promise that has settled: the data model signals failure by rejection.
\<close>

datatype 'a promise = Resolves 'a | Rejects jsval

text \<open>
  The data-model class \<^verbatim>\<open>Model\<close> is injected; the handlers use it through six call
  chains, each a field here and each returning the outcome of its promise:
  \<^verbatim>\<open>Model.fetchAll()\<close>, \<^verbatim>\<open>new Model(a).fetch()\<close>, \<^verbatim>\<open>new Model().where(f, v).count()\<close>,
  \<^verbatim>\<open>new Model(a).save(x, o)\<close>, \<^verbatim>\<open>r.save(x, o)\<close> and \<^verbatim>\<open>r.destroy(o)\<close> on a loaded
  resource \<open>r\<close>.
\<close>

record data_model =
  fetchAll :: "jsval promise"
  fetch :: "jsval \<Rightarrow> jsval promise"
  count :: "string \<Rightarrow> jsval \<Rightarrow> jsval promise"
  saveNew :: "jsval \<Rightarrow> jsval \<Rightarrow> jsval \<Rightarrow> jsval promise"
  save :: "jsval \<Rightarrow> jsval \<Rightarrow> jsval \<Rightarrow> jsval promise"
  destroy :: "jsval \<Rightarrow> jsval \<Rightarrow> jsval promise"

text \<open>
  Modelled from the spec: the data model's \<^verbatim>\<open>set(attrs)\<close>, which the handlers call on a
  loaded resource and which is not defined in the repository's sources. It is the
  spec's set-attributes capability, a non-destructive merge done in memory: every
  given field is assigned, every other attribute is kept.
\<close>

definition set_attrs :: "(string \<times> jsval) list \<Rightarrow> (string \<times> jsval) list \<Rightarrow> (string \<times> jsval) list" where
  "set_attrs attrs given = AList.merge attrs given"

text \<open>
  Modelled from the spec: the response sink \<^verbatim>\<open>res\<close>, whose class is not among the
  repository's sources. It is the spec's builder-style response descriptor with the
  capability set \<^verbatim>\<open>ok(body?)\<close>, \<^verbatim>\<open>notFound()\<close>, \<^verbatim>\<open>withStatus(code)\<close>,
  \<^verbatim>\<open>withHeader(name, value)\<close>, \<^verbatim>\<open>withBody(body)\<close>; success is status 200, not-found is
  status 404, and an omitted body is \<^verbatim>\<open>undefined\<close>.
\<close>

record response =
  status :: nat
  headers :: "(string \<times> jsval) list"
  body :: jsval

definition ok :: "response \<Rightarrow> jsval \<Rightarrow> response" where
  "ok r b = r\<lparr>status := 200, body := b\<rparr>"

definition notFound :: "response \<Rightarrow> response" where
  "notFound r = r\<lparr>status := 404\<rparr>"

definition withStatus :: "response \<Rightarrow> nat \<Rightarrow> response" where
  "withStatus r c = r\<lparr>status := c\<rparr>"

definition withHeader :: "response \<Rightarrow> string \<Rightarrow> jsval \<Rightarrow> response" where
  "withHeader r n v = r\<lparr>headers := AList.update n v (headers r)\<rparr>"

definition withBody :: "response \<Rightarrow> jsval \<Rightarrow> response" where
  "withBody r b = r\<lparr>body := b\<rparr>"

section \<open>Handlers\<close>

text \<open>The classes of the file, named as their constructors are.\<close>

datatype handler_class =
    GenericRouteHandler
  | IndexRouteHandler
  | CreateRouteHandler
  | ExistingResourceRouteHandler
  | ShowRouteHandler
  | ExistsRouteHandler
  | UpdateRouteHandler
  | DestroyRouteHandler

text \<open>\<^verbatim>\<open>this.constructor.name\<close>.\<close>

fun constructor_name :: "handler_class \<Rightarrow> string" where
  "constructor_name GenericRouteHandler = ''GenericRouteHandler''"
| "constructor_name IndexRouteHandler = ''IndexRouteHandler''"
| "constructor_name CreateRouteHandler = ''CreateRouteHandler''"
| "constructor_name ExistingResourceRouteHandler = ''ExistingResourceRouteHandler''"
| "constructor_name ShowRouteHandler = ''ShowRouteHandler''"
| "constructor_name ExistsRouteHandler = ''ExistsRouteHandler''"
| "constructor_name UpdateRouteHandler = ''UpdateRouteHandler''"
| "constructor_name DestroyRouteHandler = ''DestroyRouteHandler''"

text \<open>
  A handler instance: its class and the fields the constructor and the methods assign.
  \<open>ctx\<close> is the request's context bag; \<open>params\<close> and \<open>tx\<close> (the field \<^verbatim>\<open>_tx\<close>) are
  \<^verbatim>\<open>undefined\<close> until \<^verbatim>\<open>processParams\<close> and \<^verbatim>\<open>useTransaction\<close> assign them. The logger
  \<^verbatim>\<open>log\<close> returns nothing that is used: a call to it is an event of the trace below.
\<close>

record handler =
  cls :: handler_class
  ctx :: "(string \<times> jsval) list"
  res :: response
  Model :: data_model
  urlFor :: "jsval \<Rightarrow> jsval"
  params :: jsval
  tx :: jsval

definition construct ::
  "handler_class \<Rightarrow> (string \<times> jsval) list \<Rightarrow> response \<Rightarrow> data_model \<Rightarrow> (jsval \<Rightarrow> jsval) \<Rightarrow> handler" where
  "construct c cx rs M u =
     \<lparr>cls = c, ctx = cx, res = rs, Model = M, urlFor = u, params = JUndefined, tx = JUndefined\<rparr>"

text \<open>
  What a method call leaves behind besides its result: the calls it made on the data
  model and on the logger, in order. The last four events are the dispatcher's.
\<close>

datatype event =
    FetchAll
  | Fetch jsval
  | Count string jsval
  | SaveNew jsval jsval jsval
  | SetAttrs jsval jsval
  | Save jsval jsval jsval
  | Destroy jsval jsval
  | Log jsval string
  | Begin jsval
  | Invoke
  | Commit
  | Rollback

text \<open>
  How a call ends: its promise resolves or rejects, or the call throws before it
  returns a promise. A promise resolves with a plain value or with a response.
\<close>

datatype settled = Val jsval | Resp response

datatype completion = Resolved settled | Rejected jsval | Thrown js_exn

record run =
  result :: completion
  state :: handler
  trace :: "event list"

subsection \<open>The getters and \<^verbatim>\<open>useTransaction\<close>\<close>

definition requiresTransaction :: "handler \<Rightarrow> bool" where
  "requiresTransaction h =
     (case cls h of
        CreateRouteHandler \<Rightarrow> True
      | UpdateRouteHandler \<Rightarrow> True
      | DestroyRouteHandler \<Rightarrow> True
      | _ \<Rightarrow> False)"

definition useTransaction :: "handler \<Rightarrow> jsval \<Rightarrow> handler" where
  "useTransaction h t = h\<lparr>tx := t\<rparr>"

text \<open>\<^verbatim>\<open>this.ctx.resource\<close>.\<close>

definition resource :: "handler \<Rightarrow> jsval" where
  "resource h = (case map_of (ctx h) ''resource'' of Some v \<Rightarrow> v | None \<Rightarrow> JUndefined)"

subsection \<open>\<^verbatim>\<open>processParams\<close>\<close>

definition Generic_processParams :: "handler \<Rightarrow> jsval \<Rightarrow> run" where
  "Generic_processParams h ps =
     \<lparr>result = Resolved (Val JNull), state = h\<lparr>params := ps\<rparr>, trace = []\<rparr>"

text \<open>
  The super call stores the parameters and its promise is dropped. \<^verbatim>\<open>params.id\<close> is
  read before any promise exists, so its TypeError is thrown. The \<^verbatim>\<open>then\<close> callback
  returns nothing; the \<^verbatim>\<open>catch\<close> turns every rejection into the not-found response.
\<close>

definition ExistingResource_processParams :: "handler \<Rightarrow> jsval \<Rightarrow> run" where
  "ExistingResource_processParams h ps =
     (let h1 = state (Generic_processParams h ps) in
      case get_id ps of
        Inl e \<Rightarrow> \<lparr>result = Thrown e, state = h1, trace = []\<rparr>
      | Inr i \<Rightarrow>
          (let a = JObj [(''id'', i)] in
           case fetch (Model h1) a of
             Resolves r \<Rightarrow>
               \<lparr>result = Resolved (Val JUndefined),
                state = h1\<lparr>ctx := AList.update ''resource'' r (ctx h1)\<rparr>,
                trace = [Fetch a]\<rparr>
           | Rejects err \<Rightarrow>
               \<lparr>result = Resolved (Resp (notFound (res h1))),
                state = h1,
                trace = [Fetch a, Log err ''red'']\<rparr>))"

definition Exists_processParams :: "handler \<Rightarrow> jsval \<Rightarrow> run" where
  "Exists_processParams h ps =
     (case get_id ps of
        Inl e \<Rightarrow> \<lparr>result = Thrown e, state = h, trace = []\<rparr>
      | Inr i \<Rightarrow>
          (case count (Model h) ''id'' i of
             Resolves n \<Rightarrow>
               \<lparr>result = Resolved (Resp (if truthy n then ok (res h) JUndefined else notFound (res h))),
                state = h,
                trace = [Count ''id'' i]\<rparr>
           | Rejects err \<Rightarrow>
               \<lparr>result = Rejected err, state = h, trace = [Count ''id'' i]\<rparr>))"

text \<open>Method lookup along the \<^verbatim>\<open>extends\<close> chain.\<close>

definition processParams :: "handler \<Rightarrow> jsval \<Rightarrow> run" where
  "processParams h ps =
     (case cls h of
        GenericRouteHandler \<Rightarrow> Generic_processParams h ps
      | IndexRouteHandler \<Rightarrow> Generic_processParams h ps
      | CreateRouteHandler \<Rightarrow> Generic_processParams h ps
      | ExistingResourceRouteHandler \<Rightarrow> ExistingResource_processParams h ps
      | ShowRouteHandler \<Rightarrow> ExistingResource_processParams h ps
      | ExistsRouteHandler \<Rightarrow> Exists_processParams h ps
      | UpdateRouteHandler \<Rightarrow> ExistingResource_processParams h ps
      | DestroyRouteHandler \<Rightarrow> ExistingResource_processParams h ps)"

subsection \<open>\<^verbatim>\<open>handle\<close>\<close>

definition Generic_handle :: "handler \<Rightarrow> run" where
  "Generic_handle h =
     \<lparr>result = Thrown (Error (constructor_name (cls h) @ '' did not implement handle()'')),
      state = h, trace = []\<rparr>"

definition Index_handle :: "handler \<Rightarrow> run" where
  "Index_handle h =
     (case fetchAll (Model h) of
        Resolves collection \<Rightarrow>
          \<lparr>result = Resolved (Resp (ok (res h) collection)), state = h, trace = [FetchAll]\<rparr>
      | Rejects err \<Rightarrow> \<lparr>result = Rejected err, state = h, trace = [FetchAll]\<rparr>)"

definition Create_handle :: "handler \<Rightarrow> run" where
  "Create_handle h =
     (let opts = JObj [(''transacting'', tx h)] in
      case saveNew (Model h) (params h) (JObj []) opts of
        Resolves saved \<Rightarrow>
          \<lparr>result = Resolved (Resp
              (withStatus (withBody (withHeader (res h) ''Location'' (urlFor h saved)) saved) 201)),
           state = h, trace = [SaveNew (params h) (JObj []) opts]\<rparr>
      | Rejects err \<Rightarrow>
          \<lparr>result = Rejected err, state = h, trace = [SaveNew (params h) (JObj []) opts]\<rparr>)"

definition Show_handle :: "handler \<Rightarrow> run" where
  "Show_handle h = \<lparr>result = Resolved (Resp (ok (res h) (resource h))), state = h, trace = []\<rparr>"

definition Exists_handle :: "handler \<Rightarrow> run" where
  "Exists_handle h = \<lparr>result = Resolved (Resp (ok (res h) JUndefined)), state = h, trace = []\<rparr>"

text \<open>
  \<^verbatim>\<open>safeParams\<close> is a fresh object: the spread copies the stored parameters and the
  \<^verbatim>\<open>delete\<close> acts on the copy. \<^verbatim>\<open>set\<close> changes the loaded resource in place, so the
  context holds the changed resource afterwards, whatever the save does. A resource
  that is no model instance has no method \<^verbatim>\<open>set\<close>: the call throws.
\<close>

definition Update_handle :: "handler \<Rightarrow> run" where
  "Update_handle h =
     (let safeParams = AList.delete ''id'' (spread (params h)) in
      case resource h of
        JObj attrs \<Rightarrow>
          (let r1 = JObj (set_attrs attrs safeParams);
               h1 = h\<lparr>ctx := AList.update ''resource'' r1 (ctx h)\<rparr>;
               opts = JObj [(''transacting'', tx h)];
               evs = [SetAttrs (JObj attrs) (JObj safeParams), Save r1 JNull opts] in
           case save (Model h) r1 JNull opts of
             Resolves r \<Rightarrow> \<lparr>result = Resolved (Resp (ok (res h) r)), state = h1, trace = evs\<rparr>
           | Rejects err \<Rightarrow> \<lparr>result = Rejected err, state = h1, trace = evs\<rparr>)
      | _ \<Rightarrow> \<lparr>result = Thrown TypeError, state = h, trace = []\<rparr>)"

definition Destroy_handle :: "handler \<Rightarrow> run" where
  "Destroy_handle h =
     (case resource h of
        JObj attrs \<Rightarrow>
          (let opts = JObj [(''transacting'', tx h)] in
           case destroy (Model h) (JObj attrs) opts of
             Resolves u \<Rightarrow>
               \<lparr>result = Resolved (Resp (ok (res h) JUndefined)), state = h,
                trace = [Destroy (JObj attrs) opts]\<rparr>
           | Rejects err \<Rightarrow>
               \<lparr>result = Rejected err, state = h, trace = [Destroy (JObj attrs) opts]\<rparr>)
      | _ \<Rightarrow> \<lparr>result = Thrown TypeError, state = h, trace = []\<rparr>)"

definition handle :: "handler \<Rightarrow> run" where
  "handle h =
     (case cls h of
        GenericRouteHandler \<Rightarrow> Generic_handle h
      | IndexRouteHandler \<Rightarrow> Index_handle h
      | CreateRouteHandler \<Rightarrow> Create_handle h
      | ExistingResourceRouteHandler \<Rightarrow> Generic_handle h
      | ShowRouteHandler \<Rightarrow> Show_handle h
      | ExistsRouteHandler \<Rightarrow> Exists_handle h
      | UpdateRouteHandler \<Rightarrow> Update_handle h
      | DestroyRouteHandler \<Rightarrow> Destroy_handle h)"

subsection \<open>Calls that write to the database\<close>

text \<open>
  The calls that change stored rows are the two saves and the destroy; they are the
  calls that take an options object, whose \<^verbatim>\<open>transacting\<close> entry names the transaction.
  \<^verbatim>\<open>set\<close> changes the instance in memory only and takes no such option.
\<close>

fun mutating :: "event \<Rightarrow> bool" where
  "mutating (SaveNew a x opts) = True"
| "mutating (Save r x opts) = True"
| "mutating (Destroy r opts) = True"
| "mutating e = False"

fun options :: "event \<Rightarrow> jsval" where
  "options (SaveNew a x opts) = opts"
| "options (Save r x opts) = opts"
| "options (Destroy r opts) = opts"
| "options e = JUndefined"

section \<open>The dispatcher\<close>

text \<open>
  Modelled from the spec: the dispatcher, the router that drives a handler and is not
  among the repository's sources. It follows the spec's dispatcher contract step by
  step: construct the handler; call \<^verbatim>\<open>processParams(params)\<close>; if
  \<^verbatim>\<open>requiresTransaction\<close> is true, open a transaction and call \<^verbatim>\<open>useTransaction(tx)\<close>;
  if \<^verbatim>\<open>processParams\<close> already produced a terminal response, stop; else call
  \<^verbatim>\<open>handle()\<close>; commit the transaction on success, roll it back on a rejection from
  either step. The event \<open>Invoke\<close> marks the call of \<^verbatim>\<open>handle()\<close>.
\<close>

definition dispatch ::
  "handler_class \<Rightarrow> (string \<times> jsval) list \<Rightarrow> response \<Rightarrow> data_model \<Rightarrow> (jsval \<Rightarrow> jsval)
     \<Rightarrow> jsval \<Rightarrow> jsval \<Rightarrow> run" where
  "dispatch c cx rs M u ps t =
     (let h0 = construct c cx rs M u;
          p = processParams h0 ps;
          needed = requiresTransaction (state p);
          h1 = (if needed then useTransaction (state p) t else state p);
          opened = (if needed then [Begin t] else []) in
      case result p of
        Resolved (Resp r) \<Rightarrow> \<lparr>result = result p, state = h1, trace = trace p @ opened\<rparr>
      | Resolved (Val v) \<Rightarrow>
          (let q = handle h1 in
           \<lparr>result = result q, state = state q,
            trace = trace p @ opened @ [Invoke] @ trace q @
              (if needed then (case result q of Resolved s \<Rightarrow> [Commit] | _ \<Rightarrow> [Rollback])
               else [])\<rparr>)
      | _ \<Rightarrow>
          \<lparr>result = result p, state = h1,
           trace = trace p @ opened @ (if needed then [Rollback] else [])\<rparr>)"

section \<open>Sample collaborators\<close>

text \<open>
  A one-row table behind two data models. Both resolve a save with the saved instance.
  \<open>strict_Model\<close> rejects the fetch of a missing row; \<open>lenient_Model\<close> resolves it
  with \<^verbatim>\<open>null\<close>.
\<close>

definition blank_res :: response where
  "blank_res = \<lparr>status = 0, headers = [], body = JUndefined\<rparr>"

definition row1 :: jsval where
  "row1 = JObj [(''id'', JNum 1), (''a'', JNum 1), (''b'', JNum 2)]"

definition strict_Model :: data_model where
  "strict_Model =
     \<lparr>fetchAll = Resolves (JArr [row1]),
      fetch = (\<lambda>a. if a = JObj [(''id'', JNum 1)] then Resolves row1
                    else Rejects (JStr ''EmptyResponse'')),
      count = (\<lambda>f v. Resolves (JNum (if f = ''id'' \<and> v = JNum 1 then 1 else 0))),
      saveNew = (\<lambda>a x opts. Resolves (JObj ((''id'', JNum 2) # spread a))),
      save = (\<lambda>r x opts. Resolves r),
      destroy = (\<lambda>r opts. Resolves (JObj []))\<rparr>"

definition lenient_Model :: data_model where
  "lenient_Model =
     strict_Model\<lparr>fetch := (\<lambda>a. if a = JObj [(''id'', JNum 1)] then Resolves row1
                                 else Resolves JNull)\<rparr>"

definition rows_urlFor :: "jsval \<Rightarrow> jsval" where
  "rows_urlFor r =
     (case get_id r of Inr (JNum n) \<Rightarrow> JStr (''/rows/'' @ dec (nat n)) | _ \<Rightarrow> JStr ''/rows'')"

text \<open>
  Two more data models over the same table: one whose save rejects, as a violated
  constraint makes it, and one whose save resolves with \<^verbatim>\<open>null\<close> instead of the saved
  instance.
\<close>

definition rejecting_save_Model :: data_model where
  "rejecting_save_Model = strict_Model\<lparr>save := (\<lambda>r x opts. Rejects (JStr ''constraint''))\<rparr>"

definition null_save_Model :: data_model where
  "null_save_Model = strict_Model\<lparr>save := (\<lambda>r x opts. Resolves JNull)\<rparr>"

text \<open>
  An UpdateRouteHandler after a successful \<^verbatim>\<open>processParams\<close> and \<^verbatim>\<open>useTransaction\<close>:
  the row is loaded, and the request asks for another id and a new value of \<open>a\<close>.
\<close>

definition loaded_Update :: handler where
  "loaded_Update =
     (construct UpdateRouteHandler [(''resource'', row1)] blank_res strict_Model rows_urlFor)
       \<lparr>params := JObj [(''id'', JNum 99), (''a'', JNum 9)], tx := JStr ''tx''\<rparr>"

section \<open>Auxiliary facts\<close>

lemma processParams_existing:
  assumes "c = ExistingResourceRouteHandler \<or> c = ShowRouteHandler
           \<or> c = UpdateRouteHandler \<or> c = DestroyRouteHandler"
    and "cls h = c"
  shows "processParams h ps = ExistingResource_processParams h ps"
  using assms by (auto simp: processParams_def)

lemma set_attrs_lookup:
  "map_of (set_attrs attrs given) k =
     (case map_of given k of Some v \<Rightarrow> Some v | None \<Rightarrow> map_of attrs k)"
  by (simp add: set_attrs_def merge_conv' map_add_def)

lemma Update_handle_effect:
  assumes "resource h = JObj attrs"
  shows "state (Update_handle h) =
           h\<lparr>ctx := AList.update ''resource''
                 (JObj (set_attrs attrs (AList.delete ''id'' (spread (params h))))) (ctx h)\<rparr>
       \<and> trace (Update_handle h) =
           [SetAttrs (JObj attrs) (JObj (AList.delete ''id'' (spread (params h)))),
            Save (JObj (set_attrs attrs (AList.delete ''id'' (spread (params h)))))
              JNull (JObj [(''transacting'', tx h)])]"
  using assms by (simp add: Update_handle_def Let_def split: promise.splits)

lemma Update_handle_result:
  assumes "resource h = JObj attrs"
    and "save (Model h) (JObj (set_attrs attrs (AList.delete ''id'' (spread (params h)))))
           JNull (JObj [(''transacting'', tx h)]) = Resolves r"
  shows "result (Update_handle h) = Resolved (Resp (ok (res h) r))"
  using assms by (simp add: Update_handle_def Let_def)

subsection \<open>Index keys\<close>

lemma digit_nth: "n < 10 \<Longrightarrow> ''0123456789'' ! n \<in> set ''0123456789''"
  by (rule nth_mem) simp

lemma digit_inj:
  assumes "m < 10" "n < 10" "''0123456789'' ! m = ''0123456789'' ! n"
  shows "m = n"
proof -
  have "distinct ''0123456789''" by simp
  moreover have "m < length ''0123456789''" "n < length ''0123456789''" using assms by simp_all
  ultimately show ?thesis using assms(3) by (simp only: nth_eq_iff_index_eq)
qed

lemma dec_digits: "set (dec n) \<subseteq> set ''0123456789''"
proof (induction n rule: dec.induct)
  case (1 n)
  show ?case
  proof (cases "n < 10")
    case True
    then have "dec n = [''0123456789'' ! n]" by (simp add: dec.simps)
    then show ?thesis using digit_nth [OF True] by simp
  next
    case False
    then have e: "dec n = dec (n div 10) @ [''0123456789'' ! (n mod 10)]"
      by (subst dec.simps) simp
    have "n mod 10 < 10" by simp
    from digit_nth [OF this] "1.IH" [OF False] show ?thesis unfolding e by simp
  qed
qed

lemma dec_ne_id: "dec n \<noteq> ''id''"
proof
  assume "dec n = ''id''"
  then have "CHR ''i'' \<in> set (dec n)" by simp
  then have "CHR ''i'' \<in> set ''0123456789''" using dec_digits by blast
  then show False by simp
qed

lemma dec_nonempty: "dec n \<noteq> []"
  by (subst dec.simps) simp

lemma dec_inj: "dec m = dec n \<Longrightarrow> m = n"
proof (induction m arbitrary: n rule: dec.induct)
  case (1 m)
  show ?case
  proof (cases "m < 10")
    case True
    then have dm: "dec m = [''0123456789'' ! m]" by (simp add: dec.simps)
    show ?thesis
    proof (cases "n < 10")
      case n: True
      then have "dec n = [''0123456789'' ! n]" by (simp add: dec.simps)
      with dm "1.prems" show ?thesis using digit_inj [OF True n] by simp
    next
      case False
      then have "dec n = dec (n div 10) @ [''0123456789'' ! (n mod 10)]"
        by (subst dec.simps) simp
      with dm "1.prems" dec_nonempty [of "n div 10"] show ?thesis by simp
    qed
  next
    case False
    then have dm: "dec m = dec (m div 10) @ [''0123456789'' ! (m mod 10)]"
      by (subst dec.simps) simp
    show ?thesis
    proof (cases "n < 10")
      case True
      then have "dec n = [''0123456789'' ! n]" by (simp add: dec.simps)
      with dm "1.prems" dec_nonempty [of "m div 10"] show ?thesis by simp
    next
      case n: False
      then have dn: "dec n = dec (n div 10) @ [''0123456789'' ! (n mod 10)]"
        by (subst dec.simps) simp
      from dm dn "1.prems" have a: "dec (m div 10) = dec (n div 10)"
        and b: "''0123456789'' ! (m mod 10) = ''0123456789'' ! (n mod 10)" by simp_all
      from "1.IH" [OF False a] have q: "m div 10 = n div 10" .
      have "m mod 10 = n mod 10" by (rule digit_inj [OF _ _ b]) simp_all
      with q show ?thesis by (metis div_mult_mod_eq)
    qed
  qed
qed

lemma index_fields_hit:
  assumes "n < length ys"
  shows "map_of (zip (map dec [0..<length ys]) ys) (dec n) = Some (ys ! n)"
proof -
  have d: "distinct (map dec [0..<length ys])"
    by (simp add: distinct_map inj_on_def) (blast dest: dec_inj)
  have "map_of (zip (map dec [0..<length ys]) ys) (map dec [0..<length ys] ! n) = Some (ys ! n)"
    by (rule map_of_zip_nth) (use d assms in simp_all)
  then show ?thesis using assms by simp
qed

lemma index_fields_miss:
  assumes "k \<notin> dec ` {..<length ys}"
  shows "map_of (zip (map dec [0..<length ys]) ys) k = None"
proof -
  have "k \<notin> set (map dec [0..<length ys])" using assms by (auto simp: lessThan_def)
  then show ?thesis by (simp add: map_of_zip_is_None)
qed

lemma merged_lookup:
  "map_of (set_attrs attrs (AList.delete ''id'' fs)) k =
     (if k = ''id'' then map_of attrs k
      else case map_of fs k of Some v \<Rightarrow> Some v | None \<Rightarrow> map_of attrs k)"
  by (simp add: set_attrs_lookup delete_conv')

subsection \<open>The update and the unimplemented \<^verbatim>\<open>handle\<close>\<close>

lemma Update_handle_rejected:
  assumes "resource h = JObj attrs"
    and "save (Model h) (JObj (set_attrs attrs (AList.delete ''id'' (spread (params h)))))
           JNull (JObj [(''transacting'', tx h)]) = Rejects err"
  shows "result (Update_handle h) = Rejected err"
  using assms by (simp add: Update_handle_def Let_def)

lemma handle_error_class:
  assumes "result (handle h') = Thrown (Error m)"
  shows "(cls h' = GenericRouteHandler \<or> cls h' = ExistingResourceRouteHandler)
       \<and> m = constructor_name (cls h') @ '' did not implement handle()''"
proof (cases "cls h'")
  case GenericRouteHandler
  then show ?thesis using assms by (simp add: handle_def Generic_handle_def)
next
  case IndexRouteHandler
  then show ?thesis using assms
    by (simp add: handle_def Index_handle_def split: promise.splits)
next
  case CreateRouteHandler
  then show ?thesis using assms
    by (simp add: handle_def Create_handle_def Let_def split: promise.splits)
next
  case ExistingResourceRouteHandler
  then show ?thesis using assms by (simp add: handle_def Generic_handle_def)
next
  case ShowRouteHandler
  then show ?thesis using assms by (simp add: handle_def Show_handle_def)
next
  case ExistsRouteHandler
  then show ?thesis using assms by (simp add: handle_def Exists_handle_def)
next
  case UpdateRouteHandler
  then show ?thesis using assms
    by (simp add: handle_def Update_handle_def Let_def split: promise.splits jsval.splits)
next
  case DestroyRouteHandler
  then show ?thesis using assms
    by (simp add: handle_def Destroy_handle_def Let_def split: promise.splits jsval.splits)
qed

section \<open>Properties\<close>

text \<open>
  C1. Show, Update and Destroy inherit \<^verbatim>\<open>processParams\<close> from
  ExistingResourceRouteHandler. For every id whose fetch the data model rejects, which
  is how a data model that requires a row reports that no record has the id,
  \<^verbatim>\<open>processParams\<close> resolves with the not-found response (status 404), and a dispatcher
  that keeps the dispatcher contract ends the request with that response and never
  invokes \<^verbatim>\<open>handle()\<close>.
\<close>

theorem missing_resource_not_found:
  assumes "c = ShowRouteHandler \<or> c = UpdateRouteHandler \<or> c = DestroyRouteHandler"
    and "get_id ps = Inr i"
    and "fetch M (JObj [(''id'', i)]) = Rejects err"
  shows "result (processParams (construct c cx rs M u) ps) = Resolved (Resp (notFound rs))
       \<and> status (notFound rs) = 404
       \<and> result (dispatch c cx rs M u ps t) = Resolved (Resp (notFound rs))
       \<and> Invoke \<notin> set (trace (dispatch c cx rs M u ps t))"
proof -
  let ?h = "construct c cx rs M u"
  have pp: "processParams ?h ps = ExistingResource_processParams ?h ps"
    using assms(1) by (intro processParams_existing[of c]) (auto simp: construct_def)
  have run: "ExistingResource_processParams ?h ps =
      \<lparr>result = Resolved (Resp (notFound rs)), state = ?h\<lparr>params := ps\<rparr>,
       trace = [Fetch (JObj [(''id'', i)]), Log err ''red'']\<rparr>"
    using assms(2,3)
    by (simp add: ExistingResource_processParams_def Generic_processParams_def construct_def)
  show ?thesis
    by (simp add: dispatch_def Let_def pp run notFound_def)
qed

theorem missing_resource_not_found_witness:
  "get_id (JObj [(''id'', JNum 7)]) = Inr (JNum 7)
   \<and> fetch strict_Model (JObj [(''id'', JNum 7)]) = Rejects (JStr ''EmptyResponse'')
   \<and> result (processParams (construct UpdateRouteHandler [] blank_res strict_Model rows_urlFor)
        (JObj [(''id'', JNum 7)])) = Resolved (Resp (notFound blank_res))
   \<and> Invoke \<notin> set (trace (dispatch UpdateRouteHandler [] blank_res strict_Model rows_urlFor
        (JObj [(''id'', JNum 7)]) (JStr ''tx'')))"
  using missing_resource_not_found [of UpdateRouteHandler "JObj [(''id'', JNum 7)]" "JNum 7"
      strict_Model "JStr ''EmptyResponse''" "[]" blank_res rows_urlFor "JStr ''tx''"]
  by (simp add: strict_Model_def)

text \<open>
  The not-found response depends on the rejection, not on the record being absent. Over
  \<open>lenient_Model\<close> no record has id 7 (the table holds row 1 only and the count for 7
  is zero), the fetch resolves with \<^verbatim>\<open>null\<close>, \<^verbatim>\<open>processParams\<close> resolves without a
  response, and the dispatcher invokes \<^verbatim>\<open>handle()\<close>, which answers with success and a
  \<^verbatim>\<open>null\<close> body.
\<close>

theorem missing_resource_null_fetch_counterexample:
  "fetchAll lenient_Model = Resolves (JArr [JObj [(''id'', JNum 1), (''a'', JNum 1), (''b'', JNum 2)]])
   \<and> count lenient_Model ''id'' (JNum 7) = Resolves (JNum 0)
   \<and> fetch lenient_Model (JObj [(''id'', JNum 7)]) = Resolves JNull
   \<and> result (processParams (construct ShowRouteHandler [] blank_res lenient_Model rows_urlFor)
        (JObj [(''id'', JNum 7)])) = Resolved (Val JUndefined)
   \<and> Invoke \<in> set (trace (dispatch ShowRouteHandler [] blank_res lenient_Model rows_urlFor
        (JObj [(''id'', JNum 7)]) (JStr ''tx'')))
   \<and> result (dispatch ShowRouteHandler [] blank_res lenient_Model rows_urlFor
        (JObj [(''id'', JNum 7)]) (JStr ''tx'')) = Resolved (Resp (ok blank_res JNull))"
  by (simp add: dispatch_def processParams_def construct_def ExistingResource_processParams_def
      Generic_processParams_def lenient_Model_def strict_Model_def row1_def Let_def
      requiresTransaction_def handle_def Show_handle_def resource_def)

text \<open>
  C2. \<^verbatim>\<open>requiresTransaction\<close> is decided by the class alone: whatever the other fields
  of the handler hold, it is true for CreateRouteHandler, UpdateRouteHandler and
  DestroyRouteHandler and false for IndexRouteHandler, ShowRouteHandler and
  ExistsRouteHandler.
\<close>

theorem requiresTransaction_by_class:
  "requiresTransaction (h\<lparr>cls := CreateRouteHandler\<rparr>)
   \<and> requiresTransaction (h\<lparr>cls := UpdateRouteHandler\<rparr>)
   \<and> requiresTransaction (h\<lparr>cls := DestroyRouteHandler\<rparr>)
   \<and> \<not> requiresTransaction (h\<lparr>cls := IndexRouteHandler\<rparr>)
   \<and> \<not> requiresTransaction (h\<lparr>cls := ShowRouteHandler\<rparr>)
   \<and> \<not> requiresTransaction (h\<lparr>cls := ExistsRouteHandler\<rparr>)"
  by (simp add: requiresTransaction_def)

text \<open>
  C3. When the save of a CreateRouteHandler succeeds, \<^verbatim>\<open>handle()\<close> resolves with a
  response of status 201 whose \<^verbatim>\<open>Location\<close> header is \<^verbatim>\<open>urlFor\<close> of the saved resource
  and whose body is the saved resource.
\<close>

theorem Create_handle_created:
  assumes "cls h = CreateRouteHandler"
    and "saveNew (Model h) (params h) (JObj []) (JObj [(''transacting'', tx h)]) = Resolves saved"
  shows "\<exists>r. result (handle h) = Resolved (Resp r)
            \<and> status r = 201
            \<and> map_of (headers r) ''Location'' = Some (urlFor h saved)
            \<and> body r = saved"
  using assms
  by (simp add: handle_def Create_handle_def withStatus_def withBody_def withHeader_def update_conv')

theorem Create_handle_created_witness:
  "saveNew strict_Model (JObj [(''a'', JNum 9)]) (JObj []) (JObj [(''transacting'', JStr ''tx'')])
     = Resolves (JObj [(''id'', JNum 2), (''a'', JNum 9)])
   \<and> (\<exists>r. result (handle (useTransaction (state (processParams
              (construct CreateRouteHandler [] blank_res strict_Model rows_urlFor)
              (JObj [(''a'', JNum 9)]))) (JStr ''tx''))) = Resolved (Resp r)
          \<and> status r = 201
          \<and> map_of (headers r) ''Location'' = Some (JStr ''/rows/2'')
          \<and> body r = JObj [(''id'', JNum 2), (''a'', JNum 9)])"
proof -
  let ?h = "useTransaction (state (processParams
              (construct CreateRouteHandler [] blank_res strict_Model rows_urlFor)
              (JObj [(''a'', JNum 9)]))) (JStr ''tx'')"
  have s: "saveNew strict_Model (JObj [(''a'', JNum 9)]) (JObj []) (JObj [(''transacting'', JStr ''tx'')])
     = Resolves (JObj [(''id'', JNum 2), (''a'', JNum 9)])"
    by (simp add: strict_Model_def)
  have h: "?h = \<lparr>cls = CreateRouteHandler, ctx = [], res = blank_res, Model = strict_Model,
      urlFor = rows_urlFor, params = JObj [(''a'', JNum 9)], tx = JStr ''tx''\<rparr>"
    by (simp add: useTransaction_def processParams_def construct_def Generic_processParams_def)
  have u: "rows_urlFor (JObj [(''id'', JNum 2), (''a'', JNum 9)]) = JStr ''/rows/2''"
    by (simp add: rows_urlFor_def dec.simps)
  show ?thesis
    using Create_handle_created [of ?h "JObj [(''id'', JNum 2), (''a'', JNum 9)]"] s u
    by (simp add: h)
qed

text \<open>
  C4. An UpdateRouteHandler with a loaded resource, whatever its processed parameters
  are, hands \<^verbatim>\<open>set\<close> a copy of the parameters without \<^verbatim>\<open>id\<close> and saves the changed
  resource with the stored transaction; the context holds the changed resource
  afterwards. In the changed resource \<^verbatim>\<open>id\<close> has its old value. When the parameters are
  an object, every field of theirs other than \<^verbatim>\<open>id\<close> is given to \<^verbatim>\<open>set\<close> and has the
  parameters' value in the changed resource, and every field they do not mention keeps
  its old value; the elements of an array and the characters of a string are fields
  named by their index; any other parameters have no field and change nothing. When the
  save resolves, the response is the success response (status 200) carrying the value
  the save resolved with: the updated resource whenever the data model resolves a save
  with the instance it saved. When the save rejects, \<^verbatim>\<open>handle()\<close> rejects with the same
  reason and there is no response.
\<close>

theorem Update_handle_merges:
  assumes "cls h = UpdateRouteHandler"
    and "resource h = JObj attrs"
  shows "\<exists>fields merged.
         trace (handle h) =
           [SetAttrs (JObj attrs) (JObj fields),
            Save (JObj merged) JNull (JObj [(''transacting'', tx h)])]
       \<and> resource (state (handle h)) = JObj merged
       \<and> map_of fields ''id'' = None
       \<and> map_of merged ''id'' = map_of attrs ''id''
       \<and> (\<forall>kvs. params h = JObj kvs \<longrightarrow>
            (\<forall>k. k \<noteq> ''id'' \<longrightarrow>
               map_of fields k = map_of kvs k
             \<and> map_of merged k = (case map_of kvs k of
                                    Some v \<Rightarrow> Some v | None \<Rightarrow> map_of attrs k)))
       \<and> (\<forall>xs. params h = JArr xs \<longrightarrow>
            (\<forall>n<length xs. map_of merged (dec n) = Some (xs ! n))
          \<and> (\<forall>k. k \<notin> dec ` {..<length xs} \<longrightarrow> map_of merged k = map_of attrs k))
       \<and> (\<forall>s. params h = JStr s \<longrightarrow>
            (\<forall>n<length s. map_of merged (dec n) = Some (JStr [s ! n]))
          \<and> (\<forall>k. k \<notin> dec ` {..<length s} \<longrightarrow> map_of merged k = map_of attrs k))
       \<and> (params h = JUndefined \<or> params h = JNull \<or> (\<exists>b. params h = JBool b)
            \<or> (\<exists>n. params h = JNum n) \<longrightarrow> fields = [] \<and> merged = attrs)
       \<and> (\<forall>r. save (Model h) (JObj merged) JNull (JObj [(''transacting'', tx h)]) = Resolves r \<longrightarrow>
            result (handle h) = Resolved (Resp (ok (res h) r))
          \<and> status (ok (res h) r) = 200 \<and> body (ok (res h) r) = r)
       \<and> (save (Model h) (JObj merged) JNull (JObj [(''transacting'', tx h)])
              = Resolves (JObj merged) \<longrightarrow>
            result (handle h) = Resolved (Resp (ok (res h) (JObj merged)))
          \<and> body (ok (res h) (JObj merged)) = JObj merged)
       \<and> (\<forall>err. save (Model h) (JObj merged) JNull (JObj [(''transacting'', tx h)]) = Rejects err \<longrightarrow>
            result (handle h) = Rejected err)"
proof -
  let ?f = "AList.delete ''id'' (spread (params h))"
  let ?m = "set_attrs attrs ?f"
  let ?o = "JObj [(''transacting'', tx h)]"
  have hd: "handle h = Update_handle h"
    using assms(1) by (simp add: handle_def)
  note eff = Update_handle_effect [OF assms(2)]
  have 1: "trace (handle h) = [SetAttrs (JObj attrs) (JObj ?f), Save (JObj ?m) JNull ?o]"
    by (simp add: hd eff)
  have 2: "resource (state (handle h)) = JObj ?m"
    by (simp add: hd eff resource_def update_conv')
  have 3: "map_of ?f ''id'' = None"
    by (simp add: delete_conv')
  have 4: "map_of ?m ''id'' = map_of attrs ''id''"
    by (simp add: merged_lookup)
  have 5: "\<forall>kvs. params h = JObj kvs \<longrightarrow>
            (\<forall>k. k \<noteq> ''id'' \<longrightarrow>
               map_of ?f k = map_of kvs k
             \<and> map_of ?m k = (case map_of kvs k of
                                 Some v \<Rightarrow> Some v | None \<Rightarrow> map_of attrs k))"
    by (simp add: merged_lookup)
  have 6: "\<forall>xs. params h = JArr xs \<longrightarrow>
            (\<forall>n<length xs. map_of ?m (dec n) = Some (xs ! n))
          \<and> (\<forall>k. k \<notin> dec ` {..<length xs} \<longrightarrow> map_of ?m k = map_of attrs k)"
  proof (intro allI impI conjI)
    fix xs n assume p: "params h = JArr xs" and n: "n < length xs"
    show "map_of ?m (dec n) = Some (xs ! n)"
      by (simp add: merged_lookup p dec_ne_id index_fields_hit [OF n])
  next
    fix xs k assume p: "params h = JArr xs" and k: "k \<notin> dec ` {..<length xs}"
    show "map_of ?m k = map_of attrs k"
      by (simp add: merged_lookup p index_fields_miss [OF k])
  qed
  have 7: "\<forall>s. params h = JStr s \<longrightarrow>
            (\<forall>n<length s. map_of ?m (dec n) = Some (JStr [s ! n]))
          \<and> (\<forall>k. k \<notin> dec ` {..<length s} \<longrightarrow> map_of ?m k = map_of attrs k)"
  proof (intro allI impI conjI)
    fix s n assume p: "params h = JStr s" and n: "n < length s"
    let ?ys = "map (\<lambda>c. JStr [c]) s"
    have z: "map_of (zip (map dec [0..<length s]) ?ys) (dec n) = Some (JStr [s ! n])"
      using index_fields_hit [of n ?ys] n by simp
    show "map_of ?m (dec n) = Some (JStr [s ! n])"
      by (simp add: merged_lookup p dec_ne_id z)
  next
    fix s k assume p: "params h = JStr s" and k: "k \<notin> dec ` {..<length s}"
    let ?ys = "map (\<lambda>c. JStr [c]) s"
    have z: "map_of (zip (map dec [0..<length s]) ?ys) k = None"
      using index_fields_miss [of k ?ys] k by simp
    show "map_of ?m k = map_of attrs k"
      by (simp add: merged_lookup p z)
  qed
  have 8: "params h = JUndefined \<or> params h = JNull \<or> (\<exists>b. params h = JBool b)
            \<or> (\<exists>n. params h = JNum n) \<longrightarrow> ?f = [] \<and> ?m = attrs"
    by (auto simp: set_attrs_def AList.merge_def AList.delete_eq)
  have 9: "\<forall>r. save (Model h) (JObj ?m) JNull ?o = Resolves r \<longrightarrow>
            result (handle h) = Resolved (Resp (ok (res h) r))
          \<and> status (ok (res h) r) = 200 \<and> body (ok (res h) r) = r"
    by (simp add: hd Update_handle_result [OF assms(2)] ok_def)
  have 10: "save (Model h) (JObj ?m) JNull ?o = Resolves (JObj ?m) \<longrightarrow>
            result (handle h) = Resolved (Resp (ok (res h) (JObj ?m)))
          \<and> body (ok (res h) (JObj ?m)) = JObj ?m"
    using 9 by blast
  have 11: "\<forall>err. save (Model h) (JObj ?m) JNull ?o = Rejects err \<longrightarrow>
            result (handle h) = Rejected err"
    by (simp add: hd Update_handle_rejected [OF assms(2)])
  show ?thesis
    by (rule exI [of _ ?f], rule exI [of _ ?m]) (intro conjI 1 2 3 4 5 6 7 8 9 10 11)
qed

theorem Update_handle_merges_witness:
  "resource loaded_Update = JObj [(''id'', JNum 1), (''a'', JNum 1), (''b'', JNum 2)]
   \<and> params loaded_Update = JObj [(''id'', JNum 99), (''a'', JNum 9)]
   \<and> save (Model loaded_Update) (JObj [(''id'', JNum 1), (''a'', JNum 9), (''b'', JNum 2)]) JNull
       (JObj [(''transacting'', tx loaded_Update)])
       = Resolves (JObj [(''id'', JNum 1), (''a'', JNum 9), (''b'', JNum 2)])
   \<and> result (handle loaded_Update)
       = Resolved (Resp (ok blank_res (JObj [(''id'', JNum 1), (''a'', JNum 9), (''b'', JNum 2)])))
   \<and> resource (state (handle loaded_Update))
       = JObj [(''id'', JNum 1), (''a'', JNum 9), (''b'', JNum 2)]
   \<and> trace (handle loaded_Update) =
       [SetAttrs (JObj [(''id'', JNum 1), (''a'', JNum 1), (''b'', JNum 2)]) (JObj [(''a'', JNum 9)]),
        Save (JObj [(''id'', JNum 1), (''a'', JNum 9), (''b'', JNum 2)]) JNull
          (JObj [(''transacting'', JStr ''tx'')])]
   \<and> (\<exists>m. resource (state (handle (loaded_Update\<lparr>params := JArr [JNum 5, JNum 6]\<rparr>))) = JObj m
          \<and> map_of m ''0'' = Some (JNum 5) \<and> map_of m ''1'' = Some (JNum 6)
          \<and> map_of m ''id'' = Some (JNum 1) \<and> map_of m ''a'' = Some (JNum 1)
          \<and> map_of m ''b'' = Some (JNum 2))
   \<and> (\<exists>m. resource (state (handle (loaded_Update\<lparr>params := JStr ''hi''\<rparr>))) = JObj m
          \<and> map_of m ''0'' = Some (JStr ''h'') \<and> map_of m ''1'' = Some (JStr ''i'')
          \<and> map_of m ''id'' = Some (JNum 1) \<and> map_of m ''a'' = Some (JNum 1)
          \<and> map_of m ''b'' = Some (JNum 2))
   \<and> resource (state (handle (loaded_Update\<lparr>params := JUndefined\<rparr>)))
       = JObj [(''id'', JNum 1), (''a'', JNum 1), (''b'', JNum 2)]"
proof -
  let ?attrs = "[(''id'', JNum 1), (''a'', JNum 1), (''b'', JNum 2)]"
  let ?merged = "[(''id'', JNum 1), (''a'', JNum 9), (''b'', JNum 2)]"
  have f: "cls loaded_Update = UpdateRouteHandler" "res loaded_Update = blank_res"
    "tx loaded_Update = JStr ''tx''" "Model loaded_Update = strict_Model"
    "params loaded_Update = JObj [(''id'', JNum 99), (''a'', JNum 9)]"
    by (simp_all add: loaded_Update_def construct_def)
  have r: "resource loaded_Update = JObj ?attrs"
    by (simp add: loaded_Update_def construct_def resource_def row1_def)
  have t: "trace (handle loaded_Update) =
       [SetAttrs (JObj ?attrs) (JObj [(''a'', JNum 9)]),
        Save (JObj ?merged) JNull (JObj [(''transacting'', JStr ''tx'')])]"
    by (simp add: handle_def loaded_Update_def construct_def Update_handle_def
        resource_def row1_def strict_Model_def Let_def AList.delete_eq set_attrs_def AList.merge_def)
  have s: "save (Model loaded_Update) (JObj ?merged) JNull (JObj [(''transacting'', tx loaded_Update)])
      = Resolves (JObj ?merged)"
    by (simp add: f strict_Model_def)
  from Update_handle_merges [OF f(1) r] obtain fields merged where
    t': "trace (handle loaded_Update) =
           [SetAttrs (JObj ?attrs) (JObj fields),
            Save (JObj merged) JNull (JObj [(''transacting'', tx loaded_Update)])]"
    and st: "resource (state (handle loaded_Update)) = JObj merged"
    and sv: "save (Model loaded_Update) (JObj merged) JNull (JObj [(''transacting'', tx loaded_Update)])
              = Resolves (JObj merged) \<longrightarrow>
            result (handle loaded_Update) = Resolved (Resp (ok (res loaded_Update) (JObj merged)))
          \<and> body (ok (res loaded_Update) (JObj merged)) = JObj merged"
    by (elim exE conjE) (rule that, assumption+)
  from t t' have m: "merged = ?merged" by simp
  from sv s have res: "result (handle loaded_Update) = Resolved (Resp (ok blank_res (JObj ?merged)))"
    by (simp add: m f)
  have d0: "dec 0 = ''0''" and d1: "dec (Suc 0) = ''1''"
    by (simp_all add: dec.simps)
  have u: "[0..<2] = [0, 1]" by (simp add: upt_rec)
  have arr: "\<exists>m. resource (state (handle (loaded_Update\<lparr>params := JArr [JNum 5, JNum 6]\<rparr>))) = JObj m
          \<and> map_of m ''0'' = Some (JNum 5) \<and> map_of m ''1'' = Some (JNum 6)
          \<and> map_of m ''id'' = Some (JNum 1) \<and> map_of m ''a'' = Some (JNum 1)
          \<and> map_of m ''b'' = Some (JNum 2)"
    by (simp add: handle_def loaded_Update_def construct_def Update_handle_def u d0 d1
        resource_def row1_def strict_Model_def Let_def AList.delete_eq set_attrs_def AList.merge_def)
  have str: "\<exists>m. resource (state (handle (loaded_Update\<lparr>params := JStr ''hi''\<rparr>))) = JObj m
          \<and> map_of m ''0'' = Some (JStr ''h'') \<and> map_of m ''1'' = Some (JStr ''i'')
          \<and> map_of m ''id'' = Some (JNum 1) \<and> map_of m ''a'' = Some (JNum 1)
          \<and> map_of m ''b'' = Some (JNum 2)"
    by (simp add: handle_def loaded_Update_def construct_def Update_handle_def u d0 d1
        resource_def row1_def strict_Model_def Let_def AList.delete_eq set_attrs_def AList.merge_def)
  have und: "resource (state (handle (loaded_Update\<lparr>params := JUndefined\<rparr>)))
       = JObj [(''id'', JNum 1), (''a'', JNum 1), (''b'', JNum 2)]"
    by (simp add: handle_def loaded_Update_def construct_def Update_handle_def
        resource_def row1_def strict_Model_def Let_def AList.delete_eq set_attrs_def AList.merge_def)
  show ?thesis
    using r f(5) s res st t arr str und by (simp add: m f)
qed

text \<open>
  The success response is not unconditional. With a save that rejects, \<^verbatim>\<open>handle()\<close> of
  the loaded handler rejects; with a save that resolves with \<^verbatim>\<open>null\<close>, the body of the
  response is \<^verbatim>\<open>null\<close> while the context holds the updated resource.
\<close>

theorem Update_handle_save_counterexample:
  "cls (loaded_Update\<lparr>Model := rejecting_save_Model\<rparr>) = UpdateRouteHandler
   \<and> resource (loaded_Update\<lparr>Model := rejecting_save_Model\<rparr>) = row1
   \<and> result (handle (loaded_Update\<lparr>Model := rejecting_save_Model\<rparr>)) = Rejected (JStr ''constraint'')
   \<and> resource (loaded_Update\<lparr>Model := null_save_Model\<rparr>) = row1
   \<and> result (handle (loaded_Update\<lparr>Model := null_save_Model\<rparr>)) = Resolved (Resp (ok blank_res JNull))
   \<and> resource (state (handle (loaded_Update\<lparr>Model := null_save_Model\<rparr>)))
       = JObj [(''id'', JNum 1), (''a'', JNum 9), (''b'', JNum 2)]"
  by (simp add: handle_def loaded_Update_def construct_def Update_handle_def
      rejecting_save_Model_def null_save_Model_def
      resource_def row1_def strict_Model_def Let_def AList.delete_eq set_attrs_def AList.merge_def)

text \<open>
  C5. For an ExistsRouteHandler and any id, when the count of the records with that id
  is a nonzero number \<^verbatim>\<open>processParams\<close> resolves with the success response (status 200)
  with empty body, and when it is zero with the not-found response (status 404). Either
  response is built from the sink alone: the count is not part of it.
\<close>

theorem Exists_processParams_outcome:
  assumes "cls h = ExistsRouteHandler"
    and "get_id ps = Inr i"
    and "count (Model h) ''id'' i = Resolves (JNum n)"
  shows "result (processParams h ps)
           = Resolved (Resp (if n \<noteq> 0 then ok (res h) JUndefined else notFound (res h)))
       \<and> status (ok (res h) JUndefined) = 200 \<and> body (ok (res h) JUndefined) = JUndefined
       \<and> status (notFound (res h)) = 404"
  using assms
  by (simp add: processParams_def Exists_processParams_def ok_def notFound_def)

theorem Exists_processParams_outcome_witness:
  "count strict_Model ''id'' (JNum 1) = Resolves (JNum 1)
   \<and> count strict_Model ''id'' (JNum 7) = Resolves (JNum 0)
   \<and> result (processParams (construct ExistsRouteHandler [] blank_res strict_Model rows_urlFor)
        (JObj [(''id'', JNum 1)])) = Resolved (Resp (ok blank_res JUndefined))
   \<and> result (processParams (construct ExistsRouteHandler [] blank_res strict_Model rows_urlFor)
        (JObj [(''id'', JNum 7)])) = Resolved (Resp (notFound blank_res))"
proof -
  let ?h = "construct ExistsRouteHandler [] blank_res strict_Model rows_urlFor"
  have c1: "count strict_Model ''id'' (JNum 1) = Resolves (JNum 1)"
    and c7: "count strict_Model ''id'' (JNum 7) = Resolves (JNum 0)"
    by (simp_all add: strict_Model_def)
  have m: "cls ?h = ExistsRouteHandler" "Model ?h = strict_Model" "res ?h = blank_res"
    by (simp_all add: construct_def)
  from Exists_processParams_outcome [of ?h "JObj [(''id'', JNum 1)]" "JNum 1" 1] c1 m
  have 1: "result (processParams ?h (JObj [(''id'', JNum 1)])) = Resolved (Resp (ok blank_res JUndefined))"
    by simp
  from Exists_processParams_outcome [of ?h "JObj [(''id'', JNum 7)]" "JNum 7" 0] c7 m
  have 2: "result (processParams ?h (JObj [(''id'', JNum 7)])) = Resolved (Resp (notFound blank_res))"
    by simp
  show ?thesis using c1 c7 1 2 by simp
qed

text \<open>
  C6. A handler whose \<^verbatim>\<open>requiresTransaction\<close> is true passes the transaction stored by
  \<^verbatim>\<open>useTransaction\<close> as the \<^verbatim>\<open>transacting\<close> option of every database-writing call that
  \<^verbatim>\<open>handle()\<close> makes. A handler whose \<^verbatim>\<open>requiresTransaction\<close> is false makes no
  database-writing call at all, in \<^verbatim>\<open>processParams\<close> or in \<^verbatim>\<open>handle()\<close>.
\<close>

theorem transaction_handle_passed:
  "(requiresTransaction h \<longrightarrow>
      (\<forall>e \<in> set (trace (handle (useTransaction h t))).
          mutating e \<longrightarrow> options e = JObj [(''transacting'', t)]))
   \<and> (\<not> requiresTransaction h \<longrightarrow>
      (\<forall>e \<in> set (trace (processParams h ps) @ trace (handle h)). \<not> mutating e))"
proof (cases "cls h")
  case CreateRouteHandler
  then show ?thesis
    by (auto simp: requiresTransaction_def handle_def useTransaction_def Create_handle_def Let_def
        split: promise.splits)
next
  case UpdateRouteHandler
  then show ?thesis
    by (auto simp: requiresTransaction_def handle_def useTransaction_def Update_handle_def Let_def
        split: promise.splits jsval.splits)
next
  case DestroyRouteHandler
  then show ?thesis
    by (auto simp: requiresTransaction_def handle_def useTransaction_def Destroy_handle_def Let_def
        split: promise.splits jsval.splits)
next
  case GenericRouteHandler
  then show ?thesis
    by (simp add: requiresTransaction_def handle_def processParams_def Generic_handle_def
        Generic_processParams_def)
next
  case IndexRouteHandler
  then show ?thesis
    by (simp add: requiresTransaction_def handle_def processParams_def Index_handle_def
        Generic_processParams_def split: promise.splits)
next
  case ExistingResourceRouteHandler
  then show ?thesis
    by (simp add: requiresTransaction_def handle_def processParams_def Generic_handle_def
        ExistingResource_processParams_def Generic_processParams_def Let_def
        split: promise.splits sum.splits)
next
  case ShowRouteHandler
  then show ?thesis
    by (simp add: requiresTransaction_def handle_def processParams_def Show_handle_def
        ExistingResource_processParams_def Generic_processParams_def Let_def
        split: promise.splits sum.splits)
next
  case ExistsRouteHandler
  then show ?thesis
    by (simp add: requiresTransaction_def handle_def processParams_def Exists_handle_def
        Exists_processParams_def split: promise.splits sum.splits)
qed

theorem transaction_handle_passed_witness:
  "requiresTransaction loaded_Update
   \<and> Save (JObj [(''id'', JNum 1), (''a'', JNum 9), (''b'', JNum 2)]) JNull
         (JObj [(''transacting'', JStr ''t2'')])
       \<in> set (trace (handle (useTransaction loaded_Update (JStr ''t2''))))
   \<and> mutating (Save (JObj [(''id'', JNum 1), (''a'', JNum 9), (''b'', JNum 2)]) JNull
         (JObj [(''transacting'', JStr ''t2'')]))
   \<and> options (Save (JObj [(''id'', JNum 1), (''a'', JNum 9), (''b'', JNum 2)]) JNull
         (JObj [(''transacting'', JStr ''t2'')])) = JObj [(''transacting'', JStr ''t2'')]
   \<and> \<not> requiresTransaction (construct IndexRouteHandler [] blank_res strict_Model rows_urlFor)
   \<and> FetchAll \<in> set (trace (handle (construct IndexRouteHandler [] blank_res strict_Model rows_urlFor)))
   \<and> \<not> mutating FetchAll"
proof -
  let ?sv = "Save (JObj [(''id'', JNum 1), (''a'', JNum 9), (''b'', JNum 2)]) JNull
         (JObj [(''transacting'', JStr ''t2'')])"
  let ?i = "construct IndexRouteHandler [] blank_res strict_Model rows_urlFor"
  have u: "requiresTransaction loaded_Update"
    by (simp add: requiresTransaction_def loaded_Update_def construct_def)
  have tr: "trace (handle (useTransaction loaded_Update (JStr ''t2''))) =
      [SetAttrs (JObj [(''id'', JNum 1), (''a'', JNum 1), (''b'', JNum 2)]) (JObj [(''a'', JNum 9)]), ?sv]"
    by (simp add: handle_def useTransaction_def loaded_Update_def construct_def Update_handle_def
        resource_def row1_def strict_Model_def Let_def AList.delete_eq set_attrs_def AList.merge_def)
  have n: "\<not> requiresTransaction ?i"
    by (simp add: requiresTransaction_def construct_def)
  have ti: "trace (handle ?i) = [FetchAll]"
    by (simp add: handle_def construct_def Index_handle_def strict_Model_def)
  have 1: "options ?sv = JObj [(''transacting'', JStr ''t2'')]"
    using transaction_handle_passed [of loaded_Update "JStr ''t2''" JNull] u tr by simp
  have 2: "\<not> mutating FetchAll"
    using transaction_handle_passed [of ?i JNull JNull] n ti by simp
  show ?thesis using u tr n ti 1 2 by simp
qed

text \<open>
  C7. \<^verbatim>\<open>handle()\<close> of a class that does not override it, GenericRouteHandler itself or
  ExistingResourceRouteHandler, throws an Error whose message is the constructor name
  of the handler's class followed by \<^verbatim>\<open> did not implement handle()\<close>:
  \<^verbatim>\<open>GenericRouteHandler\<close> for the one, \<^verbatim>\<open>ExistingResourceRouteHandler\<close> for the other.
  The error identifies the class: a handler whose \<^verbatim>\<open>handle()\<close> ends the same way has
  the same class. The error leaves \<^verbatim>\<open>handle()\<close> as a throw: no response is produced,
  no call is made, and nothing in the handlers catches it.
\<close>

theorem unimplemented_handle_throws:
  assumes "cls h = GenericRouteHandler \<or> cls h = ExistingResourceRouteHandler"
  shows "result (handle h)
           = Thrown (Error (constructor_name (cls h) @ '' did not implement handle()''))
       \<and> (cls h = GenericRouteHandler \<longrightarrow>
            result (handle h) = Thrown (Error ''GenericRouteHandler did not implement handle()''))
       \<and> (cls h = ExistingResourceRouteHandler \<longrightarrow>
            result (handle h)
              = Thrown (Error ''ExistingResourceRouteHandler did not implement handle()''))
       \<and> (\<forall>h'. result (handle h') = result (handle h) \<longrightarrow> cls h' = cls h)
       \<and> state (handle h) = h \<and> trace (handle h) = []"
proof -
  have a: "result (handle h)
           = Thrown (Error (constructor_name (cls h) @ '' did not implement handle()''))"
    and e: "state (handle h) = h \<and> trace (handle h) = []"
    using assms by (auto simp: handle_def Generic_handle_def)
  have b: "cls h = GenericRouteHandler \<longrightarrow>
            result (handle h) = Thrown (Error ''GenericRouteHandler did not implement handle()'')"
    using a by simp
  have c: "cls h = ExistingResourceRouteHandler \<longrightarrow>
            result (handle h)
              = Thrown (Error ''ExistingResourceRouteHandler did not implement handle()'')"
    using a by simp
  have d: "\<forall>h'. result (handle h') = result (handle h) \<longrightarrow> cls h' = cls h"
  proof (intro allI impI)
    fix h' assume "result (handle h') = result (handle h)"
    then have r: "result (handle h')
        = Thrown (Error (constructor_name (cls h) @ '' did not implement handle()''))"
      using a by simp
    from handle_error_class [OF r]
    have k: "cls h' = GenericRouteHandler \<or> cls h' = ExistingResourceRouteHandler"
      and n: "constructor_name (cls h) = constructor_name (cls h')" by simp_all
    from k assms n show "cls h' = cls h" by auto
  qed
  show ?thesis using a b c d e by blast
qed

theorem unimplemented_handle_throws_witness:
  "result (handle (construct GenericRouteHandler [] blank_res strict_Model rows_urlFor))
     = Thrown (Error ''GenericRouteHandler did not implement handle()'')
   \<and> result (handle (construct ExistingResourceRouteHandler [] blank_res strict_Model rows_urlFor))
     = Thrown (Error ''ExistingResourceRouteHandler did not implement handle()'')
   \<and> result (dispatch GenericRouteHandler [] blank_res strict_Model rows_urlFor JNull JNull)
     = Thrown (Error ''GenericRouteHandler did not implement handle()'')"
proof -
  let ?h = "construct GenericRouteHandler [] blank_res strict_Model rows_urlFor"
  let ?e = "construct ExistingResourceRouteHandler [] blank_res strict_Model rows_urlFor"
  have c: "cls ?h = GenericRouteHandler" "cls ?e = ExistingResourceRouteHandler"
    by (simp_all add: construct_def)
  have 1: "result (handle ?h) = Thrown (Error ''GenericRouteHandler did not implement handle()'')"
    using unimplemented_handle_throws [of ?h] c by simp
  have 4: "result (handle ?e)
      = Thrown (Error ''ExistingResourceRouteHandler did not implement handle()'')"
    using unimplemented_handle_throws [of ?e] c by simp
  have 2: "result (dispatch GenericRouteHandler [] blank_res strict_Model rows_urlFor JNull JNull)
      = result (handle (?h\<lparr>params := JNull\<rparr>))"
    by (simp add: dispatch_def Let_def processParams_def construct_def Generic_processParams_def
        requiresTransaction_def)
  have 3: "result (handle (?h\<lparr>params := JNull\<rparr>))
      = Thrown (Error ''GenericRouteHandler did not implement handle()'')"
    using unimplemented_handle_throws [of "?h\<lparr>params := JNull\<rparr>"] by (simp add: construct_def)
  show ?thesis using 1 2 3 4 by simp
qed

text \<open>
  C8. When \<^verbatim>\<open>fetchAll\<close> resolves with a collection, \<^verbatim>\<open>handle()\<close> of an IndexRouteHandler
  resolves with the success response (status 200) whose body is that collection as it
  came, and \<^verbatim>\<open>fetchAll\<close> is the only call it makes: nothing filters or reorders.
\<close>

theorem Index_handle_collection:
  assumes "cls h = IndexRouteHandler"
    and "fetchAll (Model h) = Resolves collection"
  shows "result (handle h) = Resolved (Resp (ok (res h) collection))
       \<and> status (ok (res h) collection) = 200
       \<and> body (ok (res h) collection) = collection
       \<and> trace (handle h) = [FetchAll]"
  using assms by (simp add: handle_def Index_handle_def ok_def)

theorem Index_handle_collection_witness:
  "fetchAll strict_Model = Resolves (JArr [row1])
   \<and> result (handle (construct IndexRouteHandler [] blank_res strict_Model rows_urlFor))
       = Resolved (Resp (ok blank_res (JArr [row1])))
   \<and> body (ok blank_res (JArr [row1])) = JArr [row1]"
proof -
  let ?h = "construct IndexRouteHandler [] blank_res strict_Model rows_urlFor"
  have f: "fetchAll strict_Model = Resolves (JArr [row1])" by (simp add: strict_Model_def)
  have m: "cls ?h = IndexRouteHandler" "Model ?h = strict_Model" "res ?h = blank_res"
    by (simp_all add: construct_def)
  show ?thesis using Index_handle_collection [of ?h "JArr [row1]"] f m by simp
qed

text \<open>
  C9. For ExistingResourceRouteHandler and the classes derived from it: whenever the
  fetch resolves, with any value, \<^verbatim>\<open>null\<close> included, \<^verbatim>\<open>processParams\<close> stores that
  value as the resource of the context, resolves without a response and logs nothing.
  It resolves with a response, or logs, only when the fetch rejects.
\<close>

theorem fetch_resolved_is_stored:
  assumes "cls h = ExistingResourceRouteHandler \<or> cls h = ShowRouteHandler
           \<or> cls h = UpdateRouteHandler \<or> cls h = DestroyRouteHandler"
    and "get_id ps = Inr i"
  shows "(\<forall>r. fetch (Model h) (JObj [(''id'', i)]) = Resolves r \<longrightarrow>
            result (processParams h ps) = Resolved (Val JUndefined)
          \<and> resource (state (processParams h ps)) = r
          \<and> trace (processParams h ps) = [Fetch (JObj [(''id'', i)])])
       \<and> ((\<exists>x. result (processParams h ps) = Resolved (Resp x))
            \<or> (\<exists>e c. Log e c \<in> set (trace (processParams h ps)))
          \<longrightarrow> (\<exists>err. fetch (Model h) (JObj [(''id'', i)]) = Rejects err))"
proof -
  have pp: "processParams h ps = ExistingResource_processParams h ps"
    using assms(1) by (intro processParams_existing[of "cls h"]) auto
  show ?thesis
  proof (cases "fetch (Model h) (JObj [(''id'', i)])")
    case (Resolves r)
    then show ?thesis using assms(2)
      by (simp add: pp ExistingResource_processParams_def Generic_processParams_def
          resource_def update_conv')
  next
    case (Rejects err)
    then show ?thesis using assms(2)
      by (simp add: pp ExistingResource_processParams_def Generic_processParams_def)
  qed
qed

theorem fetch_resolved_is_stored_witness:
  "fetch lenient_Model (JObj [(''id'', JNum 7)]) = Resolves JNull
   \<and> result (processParams (construct ShowRouteHandler [] blank_res lenient_Model rows_urlFor)
        (JObj [(''id'', JNum 7)])) = Resolved (Val JUndefined)
   \<and> resource (state (processParams (construct ShowRouteHandler [] blank_res lenient_Model rows_urlFor)
        (JObj [(''id'', JNum 7)]))) = JNull
   \<and> Log (JStr ''EmptyResponse'') ''red'' \<in> set (trace (processParams
        (construct ShowRouteHandler [] blank_res strict_Model rows_urlFor) (JObj [(''id'', JNum 7)])))
   \<and> (\<exists>err. fetch strict_Model (JObj [(''id'', JNum 7)]) = Rejects err)"
proof -
  let ?ps = "JObj [(''id'', JNum 7)]"
  let ?l = "construct ShowRouteHandler [] blank_res lenient_Model rows_urlFor"
  let ?s = "construct ShowRouteHandler [] blank_res strict_Model rows_urlFor"
  have f: "fetch lenient_Model ?ps = Resolves JNull"
    by (simp add: lenient_Model_def strict_Model_def)
  have lg: "Log (JStr ''EmptyResponse'') ''red'' \<in> set (trace (processParams ?s ?ps))"
    by (simp add: processParams_def construct_def ExistingResource_processParams_def
        Generic_processParams_def strict_Model_def Let_def)
  have a: "fetch (Model ?l) ?ps = Resolves JNull" using f by (simp add: construct_def)
  from fetch_resolved_is_stored [of ?l ?ps "JNum 7"] a
  have 1: "result (processParams ?l ?ps) = Resolved (Val JUndefined)
         \<and> resource (state (processParams ?l ?ps)) = JNull"
    by (simp add: construct_def)
  from fetch_resolved_is_stored [of ?s ?ps "JNum 7"] lg
  have 2: "\<exists>err. fetch strict_Model ?ps = Rejects err"
    by (auto simp: construct_def)
  show ?thesis using f lg 1 2 by simp
qed

text \<open>
  C10. \<^verbatim>\<open>handle()\<close> of an UpdateRouteHandler leaves the stored parameters as they were,
  \<^verbatim>\<open>id\<close> included: the object without \<^verbatim>\<open>id\<close> that \<^verbatim>\<open>set\<close> receives is a copy.
\<close>

theorem Update_handle_keeps_params:
  assumes "cls h = UpdateRouteHandler"
  shows "params (state (handle h)) = params h
       \<and> (\<forall>r s. SetAttrs r s \<in> set (trace (handle h)) \<longrightarrow> get_id s = Inr JUndefined)"
  using assms
  by (auto simp: handle_def Update_handle_def Let_def delete_conv'
      split: promise.splits jsval.splits)

theorem Update_handle_keeps_params_witness:
  "params (state (handle loaded_Update)) = JObj [(''id'', JNum 99), (''a'', JNum 9)]
   \<and> get_id (params (state (handle loaded_Update))) = Inr (JNum 99)
   \<and> SetAttrs row1 (JObj [(''a'', JNum 9)]) \<in> set (trace (handle loaded_Update))
   \<and> get_id (JObj [(''a'', JNum 9)]) = Inr JUndefined"
proof -
  have c: "cls loaded_Update = UpdateRouteHandler"
    and p: "params loaded_Update = JObj [(''id'', JNum 99), (''a'', JNum 9)]"
    by (simp_all add: loaded_Update_def construct_def)
  have tr: "SetAttrs row1 (JObj [(''a'', JNum 9)]) \<in> set (trace (handle loaded_Update))"
    by (simp add: handle_def loaded_Update_def construct_def Update_handle_def
        resource_def row1_def strict_Model_def Let_def AList.delete_eq)
  from Update_handle_keeps_params [OF c]
  have k: "params (state (handle loaded_Update)) = params loaded_Update"
    and g: "get_id (JObj [(''a'', JNum 9)]) = Inr JUndefined"
    using tr by blast+
  show ?thesis using k g tr by (simp add: p)
qed

end
